theory Spec2Isabelle
  imports Main
begin

section \<open>FRITZ!Box device scanner: data model\<close>

text \<open>
  The embedding follows \<^verbatim>\<open>homeassistant/components/fritz/common.py\<close>:
  the class \<^verbatim>\<open>FritzScannerEntity\<close> (one record per tracked device) and the
  methods \<^verbatim>\<open>_update_info\<close> and \<^verbatim>\<open>scan_devices\<close> of
  \<^verbatim>\<open>FritzBoxTools\<close>.

  Python values are typed as the router client hands them over: a MAC, an IP address and
  a host name are a \<^verbatim>\<open>str\<close> or \<^verbatim>\<open>None\<close> (\<open>string option\<close>), the
  status is a \<^verbatim>\<open>bool\<close>, a point in time is an \<open>int\<close> (a timestamp).
  Exceptions are values of \<open>error\<close>.
\<close>

datatype error = TypeError | KeyError string

text \<open>\<^verbatim>\<open>Device = namedtuple("Device", ["mac", "ip", "name"])\<close>\<close>

datatype Device =
  Device (Device_mac: string) (Device_ip: "string option") (Device_name: "string option")

text \<open>
  The attributes of a \<^verbatim>\<open>FritzScannerEntity\<close>, under the names of their read
  properties (\<open>is_connected\<close> is \<^verbatim>\<open>_connected\<close>). \<^verbatim>\<open>__init__\<close> does not
  assign \<^verbatim>\<open>_icon\<close>: \<open>icon = None\<close> is the attribute not yet set.
\<close>

record FritzScannerEntity =
  mac :: string
  name :: "string option"
  ip_address :: "string option"
  last_activity :: "int option"
  is_connected :: bool
  icon :: "string option"

text \<open>
  One element of the list that \<^verbatim>\<open>fritzhosts.get_hosts_info()\<close> returns: a dict
  read at the keys \<^verbatim>\<open>"mac"\<close>, \<^verbatim>\<open>"name"\<close>, \<^verbatim>\<open>"ip"\<close> and
  \<^verbatim>\<open>"status"\<close>. Each field is \<open>None\<close> when the dict has no such key and
  \<open>Some v\<close> when the key holds \<open>v\<close> (so \<open>Some None\<close> is a key holding
  \<^verbatim>\<open>None\<close>).
\<close>

record known_host =
  mac_key :: "string option option"
  name_key :: "string option option"
  ip_key :: "string option option"
  status_key :: "bool option"

text \<open>
  The \<^verbatim>\<open>FritzBoxTools\<close> object and what a scan touches outside it:
  \<open>devices\<close> is \<^verbatim>\<open>self._devices\<close>, \<open>hass_signals\<close> lists the signals sent
  with \<^verbatim>\<open>async_dispatcher_send(self.hass, ...)\<close> (oldest first), and
  \<open>utc_calls\<close> counts the calls of \<^verbatim>\<open>dt_util.utcnow()\<close> made so far: the
  \<open>n\<close>-th call returns \<open>utcnow n\<close> for a clock \<open>utcnow :: nat \<Rightarrow> int\<close> that the
  functions below take as a parameter.
\<close>

record FritzBoxTools =
  success :: bool
  devices :: "string \<rightharpoonup> FritzScannerEntity"
  hass_signals :: "string list"
  utc_calls :: nat

section \<open>Operations\<close>

text \<open>Python truthiness of a \<^verbatim>\<open>str\<close> or \<^verbatim>\<open>None\<close>.\<close>

fun truthy :: "string option \<Rightarrow> bool" where
  "truthy None = False"
| "truthy (Some s) = (s \<noteq> [])"

text \<open>\<^verbatim>\<open>s.replace(old, new)\<close> for one-character \<^verbatim>\<open>old\<close> and \<^verbatim>\<open>new\<close>.\<close>

definition replace :: "char \<Rightarrow> char \<Rightarrow> string \<Rightarrow> string" where
  "replace old new s = map (\<lambda>c. if c = old then new else c) s"

text \<open>\<^verbatim>\<open>FritzScannerEntity.__init__(self, mac, name=None)\<close>\<close>

definition FritzScannerEntity_init :: "string \<Rightarrow> string option \<Rightarrow> FritzScannerEntity" where
  "FritzScannerEntity_init m n =
     \<lparr>mac = m, name = n, ip_address = None, last_activity = None,
      is_connected = False, icon = None\<rparr>"

text \<open>
  \<^verbatim>\<open>FritzScannerEntity.update(self, dev_info, dev_home)\<close>. The last argument is
  what the call's \<^verbatim>\<open>dt_util.utcnow()\<close> returns.
\<close>

definition update :: "FritzScannerEntity \<Rightarrow> Device \<Rightarrow> bool \<Rightarrow> int \<Rightarrow> FritzScannerEntity" where
  "update self dev_info dev_home utc_point_in_time =
     (let self1 =
            (if \<not> truthy (name self)
             then self\<lparr>name :=
                    (if truthy (Device_name dev_info) then Device_name dev_info
                     else Some (replace CHR '':'' CHR ''_'' (mac self)))\<rparr>
             else self);
          self2 = self1\<lparr>is_connected := dev_home\<rparr>
      in if \<not> is_connected self2
         then self2\<lparr>ip_address := None, icon := Some ''mdi:lan-disconnect''\<rparr>
         else self2\<lparr>last_activity := Some utc_point_in_time,
                    ip_address := Device_ip dev_info,
                    icon := Some ''mdi:lan-connect''\<rparr>)"

text \<open>The signal names, with \<^verbatim>\<open>DOMAIN = "fritz"\<close>.\<close>

definition signal_device_new :: string where
  "signal_device_new = ''fritz-device-new''"

definition signal_device_update :: string where
  "signal_device_update = ''fritz-device-update''"

text \<open>
  \<^verbatim>\<open>FritzBoxTools._update_info\<close>: \<^verbatim>\<open>None\<close> when the connection failed at
  construction, else the answer \<open>hosts_info\<close> of \<^verbatim>\<open>get_hosts_info()\<close>.
\<close>

definition update_info :: "known_host list \<Rightarrow> FritzBoxTools \<Rightarrow> known_host list option" where
  "update_info hosts_info self = (if \<not> success self then None else Some hosts_info)"

text \<open>\<^verbatim>\<open>known_host.get("mac")\<close>\<close>

definition get_mac :: "known_host \<Rightarrow> string option" where
  "get_mac known_host = (case mac_key known_host of None \<Rightarrow> None | Some v \<Rightarrow> v)"

text \<open>
  The body of the loop of \<^verbatim>\<open>scan_devices\<close> for one entry, on the local
  \<^verbatim>\<open>new_device\<close> and the object. \<^verbatim>\<open>known_host["name"]\<close>,
  \<^verbatim>\<open>known_host["ip"]\<close> and \<^verbatim>\<open>known_host["status"]\<close> raise
  \<^verbatim>\<open>KeyError\<close> on a dict without the key, before anything is changed.
\<close>

definition scan_host ::
  "(nat \<Rightarrow> int) \<Rightarrow> known_host \<Rightarrow> bool \<Rightarrow> FritzBoxTools \<Rightarrow> error + bool \<times> FritzBoxTools" where
  "scan_host utcnow known_host new_device self =
     (case get_mac known_host of
        None \<Rightarrow> Inr (new_device, self)
      | Some dev_mac \<Rightarrow>
          if dev_mac = [] then Inr (new_device, self)
          else
            (case name_key known_host of
               None \<Rightarrow> Inl (KeyError ''name'')
             | Some dev_name \<Rightarrow>
            (case ip_key known_host of
               None \<Rightarrow> Inl (KeyError ''ip'')
             | Some dev_ip \<Rightarrow>
            (case status_key known_host of
               None \<Rightarrow> Inl (KeyError ''status'')
             | Some dev_home \<Rightarrow>
                 let dev_info = Device dev_mac dev_ip dev_name;
                     utc_point_in_time = utcnow (utc_calls self);
                     self1 = self\<lparr>utc_calls := Suc (utc_calls self)\<rparr>
                 in (case devices self dev_mac of
                       Some device \<Rightarrow>
                         Inr (new_device,
                              self1\<lparr>devices := (devices self)
                                 (dev_mac \<mapsto> update device dev_info dev_home utc_point_in_time)\<rparr>)
                     | None \<Rightarrow>
                         Inr (True,
                              self1\<lparr>devices := (devices self)
                                 (dev_mac \<mapsto> update (FritzScannerEntity_init dev_mac None)
                                               dev_info dev_home utc_point_in_time)\<rparr>))))))"

text \<open>
  The \<^verbatim>\<open>for\<close> loop: an exception leaves the loop with the object as the entries
  before it left it.
\<close>

fun scan_loop ::
  "(nat \<Rightarrow> int) \<Rightarrow> known_host list \<Rightarrow> bool \<Rightarrow> FritzBoxTools \<Rightarrow> (error + bool) \<times> FritzBoxTools" where
  "scan_loop utcnow [] new_device self = (Inr new_device, self)"
| "scan_loop utcnow (known_host # rest) new_device self =
     (case scan_host utcnow known_host new_device self of
        Inl e \<Rightarrow> (Inl e, self)
      | Inr (new_device1, self1) \<Rightarrow> scan_loop utcnow rest new_device1 self1)"

text \<open>
  \<^verbatim>\<open>FritzBoxTools.scan_devices(self, now=None)\<close>; the source never reads
  \<^verbatim>\<open>now\<close>, so the model has no such argument. Iterating over the
  \<^verbatim>\<open>None\<close> that \<^verbatim>\<open>_update_info\<close> returns raises \<^verbatim>\<open>TypeError\<close>.
\<close>

definition scan_devices ::
  "(nat \<Rightarrow> int) \<Rightarrow> known_host list \<Rightarrow> FritzBoxTools \<Rightarrow> (error + unit) \<times> FritzBoxTools" where
  "scan_devices utcnow hosts_info self =
     (case update_info hosts_info self of
        None \<Rightarrow> (Inl TypeError, self)
      | Some known_hosts \<Rightarrow>
          (case scan_loop utcnow known_hosts False self of
             (Inl e, self1) \<Rightarrow> (Inl e, self1)
           | (Inr new_device, self1) \<Rightarrow>
               let self2 = self1\<lparr>hass_signals := hass_signals self1 @ [signal_device_update]\<rparr>
               in (Inr (),
                   if new_device
                   then self2\<lparr>hass_signals := hass_signals self2 @ [signal_device_new]\<rparr>
                   else self2)))"


text \<open>
  A sequence of \<^verbatim>\<open>update\<close> calls on one entity, each with its device info, its
  status and the time of the call.
\<close>

fun update_all :: "FritzScannerEntity \<Rightarrow> (Device \<times> bool \<times> int) list \<Rightarrow> FritzScannerEntity" where
  "update_all self [] = self"
| "update_all self ((dev_info, dev_home, t) # calls) =
     update_all (update self dev_info dev_home t) calls"


section \<open>Properties of \<open>update\<close>\<close>

lemma update_name_kept: "truthy (name e) \<Longrightarrow> name (update e d h t) = name e"
  by (simp add: update_def Let_def)


lemma update_connected: "is_connected (update e d h t) = h"
  by (simp add: update_def Let_def)

lemma update_ip: "ip_address (update e d h t) = (if h then Device_ip d else None)"
  by (simp add: update_def Let_def)

lemma update_last_activity:
  "last_activity (update e d h t) = (if h then Some t else last_activity e)"
  by (simp add: update_def Let_def)

lemma update_all_append:
  "update_all e (xs @ ys) = update_all (update_all e xs) ys"
  by (induction e xs rule: update_all.induct) simp_all

lemma update_all_snoc:
  "update_all e (xs @ [(d, h, t)]) = update (update_all e xs) d h t"
  by (simp add: update_all_append)


text \<open>
  C4, as the claim states it, fails: an \<^verbatim>\<open>update\<close> with status true and no IP
  address (\<^verbatim>\<open>dev_info.ip\<close> is \<^verbatim>\<open>None\<close>) leaves the entity connected with
  \<^verbatim>\<open>_ip_address\<close> \<^verbatim>\<open>None\<close>.
\<close>

theorem update_online_without_ip:
  "is_connected (update (FritzScannerEntity_init ''AA:BB'' None)
       (Device ''AA:BB'' None (Some ''Phone'')) True 100)
   \<and> ip_address (update (FritzScannerEntity_init ''AA:BB'' None)
       (Device ''AA:BB'' None (Some ''Phone'')) True 100) = None"
  by (simp add: update_def FritzScannerEntity_init_def)

text \<open>
  C4, amended: after any sequence of \<^verbatim>\<open>update\<close> calls on a new entity, an IP
  address other than \<^verbatim>\<open>None\<close> implies that the entity is connected; and every
  \<^verbatim>\<open>update\<close> leaves the connectivity flag equal to the observed status and the IP
  address equal to the observed one when the status is true (so \<^verbatim>\<open>None\<close> when the
  observed address is \<^verbatim>\<open>None\<close>) and \<^verbatim>\<open>None\<close> when the status is false.
\<close>

theorem ip_address_follows_connectivity:
  "(ip_address (update_all (FritzScannerEntity_init m n) calls) \<noteq> None
      \<longrightarrow> is_connected (update_all (FritzScannerEntity_init m n) calls))
   \<and> is_connected (update e d h t) = h
   \<and> ip_address (update e d h t) = (if h then Device_ip d else None)"
proof -
  have "ip_address (update_all (FritzScannerEntity_init m n) calls) \<noteq> None
      \<longrightarrow> is_connected (update_all (FritzScannerEntity_init m n) calls)"
  proof (induction calls rule: rev_induct)
    case Nil
    show ?case by (simp add: FritzScannerEntity_init_def)
  next
    case (snoc c calls)
    obtain d h t where c: "c = (d, h, t)" by (cases c) auto
    show ?case unfolding c update_all_snoc
      by (simp add: update_connected update_ip)
  qed
  then show ?thesis by (simp add: update_connected update_ip)
qed

theorem ip_address_follows_connectivity_witness:
  "ip_address (update_all (FritzScannerEntity_init ''AA:BB'' None)
      [(Device ''AA:BB'' None None, False, 3),
       (Device ''AA:BB'' (Some ''10.0.0.5'') None, True, 4)]) = Some ''10.0.0.5''
   \<and> is_connected (update_all (FritzScannerEntity_init ''AA:BB'' None)
      [(Device ''AA:BB'' None None, False, 3),
       (Device ''AA:BB'' (Some ''10.0.0.5'') None, True, 4)])
   \<and> \<not> is_connected (update (FritzScannerEntity_init ''AA:BB'' None)
         (Device ''AA:BB'' (Some ''10.0.0.5'') None) False 5)
   \<and> ip_address (update (FritzScannerEntity_init ''AA:BB'' None)
         (Device ''AA:BB'' (Some ''10.0.0.5'') None) False 5) = None"
  using ip_address_follows_connectivity [of "''AA:BB''" None
      "[(Device ''AA:BB'' None None, False, 3),
        (Device ''AA:BB'' (Some ''10.0.0.5'') None, True, 4)]"
      "FritzScannerEntity_init ''AA:BB'' None"
      "Device ''AA:BB'' (Some ''10.0.0.5'') None" False 5]
  by (simp add: update_ip)

text \<open>
  C5: once the name of an entity is a non-empty string, no sequence of later
  \<^verbatim>\<open>update\<close> calls changes it, whatever names they carry (another non-empty
  name, the empty string or \<^verbatim>\<open>None\<close>).
\<close>

theorem name_immutable_once_set:
  "truthy (name e) \<Longrightarrow> name (update_all e calls) = name e"
proof (induction e calls rule: update_all.induct)
  case (1 self)
  show ?case by simp
next
  case (2 self dev_info dev_home t calls)
  have "name (update self dev_info dev_home t) = name self"
    using 2(2) by (rule update_name_kept)
  with 2 show ?case by simp
qed

theorem name_immutable_once_set_witness:
  "truthy (name \<lparr>mac = ''AA:BB'', name = Some ''Phone'', ip_address = None,
       last_activity = None, is_connected = False, icon = None\<rparr>)
   \<and> name (update_all \<lparr>mac = ''AA:BB'', name = Some ''Phone'', ip_address = None,
       last_activity = None, is_connected = False, icon = None\<rparr>
       [(Device ''AA:BB'' (Some ''10.0.0.5'') (Some ''Tablet''), True, 7),
        (Device ''AA:BB'' None (Some []), False, 9)]) = Some ''Phone''"
  using name_immutable_once_set [of "\<lparr>mac = ''AA:BB'', name = Some ''Phone'', ip_address = None,
       last_activity = None, is_connected = False, icon = None\<rparr>"
       "[(Device ''AA:BB'' (Some ''10.0.0.5'') (Some ''Tablet''), True, 7),
        (Device ''AA:BB'' None (Some []), False, 9)]"]
  by simp

text \<open>
  C6: what one \<^verbatim>\<open>update\<close> call does. On an entity without a name (\<^verbatim>\<open>None\<close>
  or the empty string) the name becomes the observed name when that is non-empty, and
  else the entity's MAC with every colon replaced by an underscore. With status false
  the entity is disconnected, its IP address is \<^verbatim>\<open>None\<close>, its icon is
  \<^verbatim>\<open>mdi:lan-disconnect\<close> and its last activity is what it was. With status true the
  entity is connected, its IP address is the observed one, its last activity is the time
  of the call and its icon is \<^verbatim>\<open>mdi:lan-connect\<close>.
\<close>

theorem update_effect:
  "(\<not> truthy (name e) \<longrightarrow>
      name (update e d h t) =
        (if truthy (Device_name d) then Device_name d
         else Some (map (\<lambda>c. if c = CHR '':'' then CHR ''_'' else c) (mac e))))
   \<and> (\<not> h \<longrightarrow>
        \<not> is_connected (update e d h t)
        \<and> ip_address (update e d h t) = None
        \<and> icon (update e d h t) = Some ''mdi:lan-disconnect''
        \<and> last_activity (update e d h t) = last_activity e)
   \<and> (h \<longrightarrow>
        is_connected (update e d h t)
        \<and> ip_address (update e d h t) = Device_ip d
        \<and> last_activity (update e d h t) = Some t
        \<and> icon (update e d h t) = Some ''mdi:lan-connect'')"
  by (simp add: update_def Let_def replace_def)

theorem update_effect_witness:
  "name (update (FritzScannerEntity_init ''AA:BB'' None)
      (Device ''AA:BB'' (Some ''10.0.0.5'') (Some [])) True 42) = Some ''AA_BB''
   \<and> is_connected (update (FritzScannerEntity_init ''AA:BB'' None)
      (Device ''AA:BB'' (Some ''10.0.0.5'') (Some [])) True 42)
   \<and> ip_address (update (FritzScannerEntity_init ''AA:BB'' None)
      (Device ''AA:BB'' (Some ''10.0.0.5'') (Some [])) True 42) = Some ''10.0.0.5''
   \<and> last_activity (update (FritzScannerEntity_init ''AA:BB'' None)
      (Device ''AA:BB'' (Some ''10.0.0.5'') (Some [])) True 42) = Some 42
   \<and> icon (update (FritzScannerEntity_init ''AA:BB'' None)
      (Device ''AA:BB'' (Some ''10.0.0.5'') (Some [])) True 42) = Some ''mdi:lan-connect''
   \<and> name (update \<lparr>mac = ''AA:BB'', name = None, ip_address = Some ''10.0.0.5'',
         last_activity = Some 42, is_connected = True, icon = Some ''mdi:lan-connect''\<rparr>
      (Device ''AA:BB'' (Some ''10.0.0.6'') (Some ''Phone'')) False 50) = Some ''Phone''
   \<and> \<not> is_connected (update \<lparr>mac = ''AA:BB'', name = None, ip_address = Some ''10.0.0.5'',
         last_activity = Some 42, is_connected = True, icon = Some ''mdi:lan-connect''\<rparr>
      (Device ''AA:BB'' (Some ''10.0.0.6'') (Some ''Phone'')) False 50)
   \<and> ip_address (update \<lparr>mac = ''AA:BB'', name = None, ip_address = Some ''10.0.0.5'',
         last_activity = Some 42, is_connected = True, icon = Some ''mdi:lan-connect''\<rparr>
      (Device ''AA:BB'' (Some ''10.0.0.6'') (Some ''Phone'')) False 50) = None
   \<and> icon (update \<lparr>mac = ''AA:BB'', name = None, ip_address = Some ''10.0.0.5'',
         last_activity = Some 42, is_connected = True, icon = Some ''mdi:lan-connect''\<rparr>
      (Device ''AA:BB'' (Some ''10.0.0.6'') (Some ''Phone'')) False 50)
       = Some ''mdi:lan-disconnect''
   \<and> last_activity (update \<lparr>mac = ''AA:BB'', name = None, ip_address = Some ''10.0.0.5'',
         last_activity = Some 42, is_connected = True, icon = Some ''mdi:lan-connect''\<rparr>
      (Device ''AA:BB'' (Some ''10.0.0.6'') (Some ''Phone'')) False 50) = Some 42"
  using
    update_effect [of "FritzScannerEntity_init ''AA:BB'' None"
      "Device ''AA:BB'' (Some ''10.0.0.5'') (Some [])" True 42]
    update_effect [of "\<lparr>mac = ''AA:BB'', name = None, ip_address = Some ''10.0.0.5'',
         last_activity = Some 42, is_connected = True, icon = Some ''mdi:lan-connect''\<rparr>"
      "Device ''AA:BB'' (Some ''10.0.0.6'') (Some ''Phone'')" False 50]
  by (simp add: FritzScannerEntity_init_def)

text \<open>
  C9: a second \<^verbatim>\<open>update\<close> with the same device info and status leaves the entity
  as the first left it, except that with status true the last activity is the time of
  the second call.
\<close>

theorem update_idempotent:
  "update (update e d h t1) d h t2 =
     (if h then (update e d h t1)\<lparr>last_activity := Some t2\<rparr> else update e d h t1)"
  by (simp add: update_def Let_def)

theorem update_idempotent_witness:
  "update (update (FritzScannerEntity_init ''AA:BB'' None)
       (Device ''AA:BB'' (Some ''10.0.0.5'') (Some ''Phone'')) True 42)
     (Device ''AA:BB'' (Some ''10.0.0.5'') (Some ''Phone'')) True 43
   = \<lparr>mac = ''AA:BB'', name = Some ''Phone'', ip_address = Some ''10.0.0.5'',
      last_activity = Some 43, is_connected = True, icon = Some ''mdi:lan-connect''\<rparr>
   \<and> update (update (FritzScannerEntity_init ''AA:BB'' None)
       (Device ''AA:BB'' (Some ''10.0.0.5'') (Some ''Phone'')) False 42)
     (Device ''AA:BB'' (Some ''10.0.0.5'') (Some ''Phone'')) False 43
   = update (FritzScannerEntity_init ''AA:BB'' None)
       (Device ''AA:BB'' (Some ''10.0.0.5'') (Some ''Phone'')) False 42"
  using
    update_idempotent [of "FritzScannerEntity_init ''AA:BB'' None"
      "Device ''AA:BB'' (Some ''10.0.0.5'') (Some ''Phone'')" True 42 43]
    update_idempotent [of "FritzScannerEntity_init ''AA:BB'' None"
      "Device ''AA:BB'' (Some ''10.0.0.5'') (Some ''Phone'')" False 42 43]
  by (simp add: update_def FritzScannerEntity_init_def)

lemma update_all_last_activity_grows:
  assumes "last_activity e = Some t1"
    and "sorted (map (\<lambda>c. snd (snd c)) calls)"
    and "\<forall>c\<in>set calls. t1 \<le> snd (snd c)"
  shows "\<exists>t2. last_activity (update_all e calls) = Some t2 \<and> t1 \<le> t2"
  using assms
proof (induction e calls arbitrary: t1 rule: update_all.induct)
  case (1 self)
  then show ?case by simp
next
  case (2 self dev_info dev_home t calls)
  let ?t = "if dev_home then t else t1"
  have stored: "last_activity (update self dev_info dev_home t) = Some ?t"
    using "2.prems"(1) by (simp add: update_last_activity)
  have srt: "sorted (map (\<lambda>c. snd (snd c)) calls)"
    using "2.prems"(2) by simp
  have bound: "\<forall>c\<in>set calls. ?t \<le> snd (snd c)"
    using "2.prems"(2,3) by auto
  obtain t2 where t2: "last_activity (update_all (update self dev_info dev_home t) calls) = Some t2"
      "?t \<le> t2"
    using "2.IH" [OF stored srt bound] by blast
  have "t1 \<le> ?t" using "2.prems"(3) by simp
  with t2 show ?case by auto
qed

lemma update_all_last_activity_source:
  assumes "last_activity (update_all e calls) = Some t1"
  shows "last_activity e = Some t1 \<or> t1 \<in> set (map (\<lambda>c. snd (snd c)) calls)"
  using assms
proof (induction e calls rule: update_all.induct)
  case (1 self)
  then show ?case by simp
next
  case (2 self dev_info dev_home t calls)
  from "2.IH" "2.prems"
  have "last_activity (update self dev_info dev_home t) = Some t1
      \<or> t1 \<in> set (map (\<lambda>c. snd (snd c)) calls)"
    by simp
  then show ?case by (auto simp add: update_last_activity split: if_splits)
qed

text \<open>
  C10: the last activity of an entity never goes back. It is \<^verbatim>\<open>None\<close> on a new
  entity; an \<^verbatim>\<open>update\<close> writes it only with status true, and then with the time of
  the call; and when the calls come at times that do not decrease, what is stored after
  some of them is \<^verbatim>\<open>None\<close> or a time not later than what is stored after any
  further calls, which is then not \<^verbatim>\<open>None\<close>. A call is (device info, status,
  time).
\<close>

theorem last_activity_monotone:
  assumes "sorted (map (\<lambda>c. snd (snd c)) (calls1 @ calls2))"
  shows "last_activity (FritzScannerEntity_init m n) = None
     \<and> last_activity (update e d h t) = (if h then Some t else last_activity e)
     \<and> (case last_activity (update_all (FritzScannerEntity_init m n) calls1) of
          None \<Rightarrow> True
        | Some t1 \<Rightarrow>
            \<exists>t2. last_activity (update_all (FritzScannerEntity_init m n) (calls1 @ calls2))
                   = Some t2
               \<and> t1 \<le> t2)"
proof -
  let ?e0 = "FritzScannerEntity_init m n"
  have init: "last_activity ?e0 = None"
    by (simp add: FritzScannerEntity_init_def)
  have later: "\<exists>t2. last_activity (update_all ?e0 (calls1 @ calls2)) = Some t2 \<and> t1 \<le> t2"
    if t1: "last_activity (update_all ?e0 calls1) = Some t1" for t1
  proof -
    have "t1 \<in> set (map (\<lambda>c. snd (snd c)) calls1)"
      using update_all_last_activity_source [OF t1] init by simp
    then have bound: "\<forall>c\<in>set calls2. t1 \<le> snd (snd c)"
      using assms by (auto simp add: sorted_append)
    have srt: "sorted (map (\<lambda>c. snd (snd c)) calls2)"
      using assms by (simp add: sorted_append)
    show ?thesis
      using update_all_last_activity_grows [OF t1 srt bound]
      by (simp add: update_all_append)
  qed
  show ?thesis
    using init later by (simp add: update_last_activity split: option.splits)
qed

theorem last_activity_monotone_witness:
  "last_activity (update_all (FritzScannerEntity_init ''AA:BB'' None)
      [(Device ''AA:BB'' (Some ''10.0.0.5'') None, True, 10)]) = Some 10
   \<and> last_activity (update_all (FritzScannerEntity_init ''AA:BB'' None)
      ([(Device ''AA:BB'' (Some ''10.0.0.5'') None, True, 10)]
       @ [(Device ''AA:BB'' None None, False, 20),
          (Device ''AA:BB'' (Some ''10.0.0.5'') None, True, 30),
          (Device ''AA:BB'' None None, False, 40)])) = Some 30"
proof -
  have srt: "sorted (map (\<lambda>c. snd (snd c))
      ([(Device ''AA:BB'' (Some ''10.0.0.5'') None, True, 10)]
       @ [(Device ''AA:BB'' None None, False, 20),
          (Device ''AA:BB'' (Some ''10.0.0.5'') None, True, 30),
          (Device ''AA:BB'' None None, False, (40::int))]))"
    by simp
  show ?thesis
    using last_activity_monotone [OF srt, of "''AA:BB''" None]
    by (simp add: update_def FritzScannerEntity_init_def)
qed

section \<open>Properties of \<open>scan_devices\<close>\<close>

lemma scan_devices_not_success:
  "\<not> success self \<Longrightarrow> scan_devices utcnow hosts_info self = (Inl TypeError, self)"
  by (simp add: scan_devices_def update_info_def)

lemma scan_host_skip:
  "\<not> truthy (get_mac h) \<Longrightarrow> scan_host utcnow h nd self = Inr (nd, self)"
  by (cases "get_mac h") (simp_all add: scan_host_def)

lemma scan_host_ok:
  assumes "get_mac h = Some m" "m \<noteq> []"
    and "name_key h = Some nm" "ip_key h = Some ip" "status_key h = Some st"
  shows "scan_host utcnow h nd self =
     Inr (nd \<or> devices self m = None,
          self\<lparr>utc_calls := Suc (utc_calls self),
               devices := (devices self)(m \<mapsto>
                 update (case devices self m of Some device \<Rightarrow> device
                         | None \<Rightarrow> FritzScannerEntity_init m None)
                   (Device m ip nm) st (utcnow (utc_calls self)))\<rparr>)"
  using assms by (cases "devices self m") (simp_all add: scan_host_def Let_def)

lemma scan_host_cases:
  obtains (skip) "\<not> truthy (get_mac h)" "scan_host utcnow h nd self = Inr (nd, self)"
  | (raise) k where "truthy (get_mac h)" "scan_host utcnow h nd self = Inl (KeyError k)"
      "name_key h = None \<or> ip_key h = None \<or> status_key h = None"
  | (ok) m nm ip st where "get_mac h = Some m" "m \<noteq> []"
      "name_key h = Some nm" "ip_key h = Some ip" "status_key h = Some st"
proof (cases "truthy (get_mac h)")
  case False
  then show ?thesis using skip scan_host_skip by blast
next
  case True
  then obtain m where m: "get_mac h = Some m" "m \<noteq> []"
    by (cases "get_mac h") auto
  show ?thesis
  proof (cases "name_key h = None \<or> ip_key h = None \<or> status_key h = None")
    case True
    then have "\<exists>k. scan_host utcnow h nd self = Inl (KeyError k)"
      using m by (auto simp add: scan_host_def split: option.splits)
    then show ?thesis using raise \<open>truthy (get_mac h)\<close> True by blast
  next
    case False
    then show ?thesis using ok m by auto
  qed
qed

text \<open>The loop sends no signal and leaves the status flag alone.\<close>

lemma scan_host_frame:
  "scan_host utcnow h nd self = Inr (nd1, self1) \<Longrightarrow>
     hass_signals self1 = hass_signals self \<and> success self1 = success self"
  by (cases rule: scan_host_cases [of h utcnow nd self]) (auto simp add: scan_host_ok)

lemma scan_loop_frame:
  "hass_signals (snd (scan_loop utcnow hosts nd self)) = hass_signals self
   \<and> success (snd (scan_loop utcnow hosts nd self)) = success self"
proof (induction hosts arbitrary: nd self)
  case Nil
  show ?case by simp
next
  case (Cons h hosts)
  show ?case
  proof (cases "scan_host utcnow h nd self")
    case (Inl e)
    then show ?thesis by simp
  next
    case (Inr r)
    then obtain nd1 self1 where r: "scan_host utcnow h nd self = Inr (nd1, self1)"
      by (cases r) auto
    from scan_host_frame [OF r] Cons [of nd1 self1] r show ?thesis by simp
  qed
qed

lemma scan_loop_new_device:
  assumes "\<forall>h\<in>set hosts. truthy (get_mac h) \<longrightarrow>
             name_key h \<noteq> None \<and> ip_key h \<noteq> None \<and> status_key h \<noteq> None"
  shows "fst (scan_loop utcnow hosts nd self) =
           Inr (nd \<or> (\<exists>h\<in>set hosts. \<exists>m. get_mac h = Some m \<and> m \<noteq> [] \<and> devices self m = None))"
  using assms
proof (induction hosts arbitrary: nd self)
  case Nil
  show ?case by simp
next
  case (Cons h hosts)
  define unseen where
    "unseen = (\<lambda>s k. \<exists>m. get_mac k = Some m \<and> m \<noteq> [] \<and> devices (s::FritzBoxTools) m = None)"
  have wf: "\<forall>h\<in>set hosts. truthy (get_mac h) \<longrightarrow>
             name_key h \<noteq> None \<and> ip_key h \<noteq> None \<and> status_key h \<noteq> None"
    using Cons.prems by simp
  have IH: "fst (scan_loop utcnow hosts nd' self') = Inr (nd' \<or> (\<exists>k\<in>set hosts. unseen self' k))"
    for nd' self'
    unfolding unseen_def by (rule Cons.IH [OF wf])
  have goal: "fst (scan_loop utcnow (h # hosts) nd self) =
      Inr (nd \<or> unseen self h \<or> (\<exists>k\<in>set hosts. unseen self k))"
  proof (cases rule: scan_host_cases [of h utcnow nd self])
    case skip
    then have "\<not> unseen self h"
      unfolding unseen_def by (cases "get_mac h") auto
    moreover have "fst (scan_loop utcnow (h # hosts) nd self) = fst (scan_loop utcnow hosts nd self)"
      using skip by simp
    ultimately show ?thesis using IH [of nd self] by simp
  next
    case (raise k)
    with Cons.prems show ?thesis by auto
  next
    case (ok m nm ip st)
    define self1 where "self1 = self\<lparr>utc_calls := Suc (utc_calls self),
               devices := (devices self)(m \<mapsto>
                 update (case devices self m of Some device \<Rightarrow> device
                         | None \<Rightarrow> FritzScannerEntity_init m None)
                   (Device m ip nm) st (utcnow (utc_calls self)))\<rparr>"
    have step: "scan_host utcnow h nd self = Inr (nd \<or> devices self m = None, self1)"
      unfolding self1_def using ok by (rule scan_host_ok)
    have here: "unseen self h = (devices self m = None)"
      unfolding unseen_def using ok by auto
    have later: "unseen self1 k = unseen self k" if "devices self m \<noteq> None" for k
    proof -
      have "(devices self1 m' = None) = (devices self m' = None)" for m'
        unfolding self1_def using that by simp
      then show ?thesis unfolding unseen_def by simp
    qed
    have "fst (scan_loop utcnow (h # hosts) nd self) =
        fst (scan_loop utcnow hosts (nd \<or> devices self m = None) self1)"
      using step by simp
    also have "\<dots> = Inr ((nd \<or> devices self m = None) \<or> (\<exists>k\<in>set hosts. unseen self1 k))"
      by (rule IH)
    also have "((nd \<or> devices self m = None) \<or> (\<exists>k\<in>set hosts. unseen self1 k)) =
        (nd \<or> unseen self h \<or> (\<exists>k\<in>set hosts. unseen self k))"
    proof (cases "devices self m = None")
      case True
      then show ?thesis using here by simp
    next
      case False
      then show ?thesis using here later by simp
    qed
    finally show ?thesis .
  qed
  then show ?case unfolding unseen_def by simp
qed

lemma scan_loop_returns_iff:
  "(\<exists>nd'. fst (scan_loop utcnow hosts nd self) = Inr nd') =
     (\<forall>h\<in>set hosts. truthy (get_mac h) \<longrightarrow>
        name_key h \<noteq> None \<and> ip_key h \<noteq> None \<and> status_key h \<noteq> None)"
proof (induction hosts arbitrary: nd self)
  case Nil
  show ?case by simp
next
  case (Cons h hosts)
  show ?case
  proof (cases rule: scan_host_cases [of h utcnow nd self])
    case skip
    then have "scan_loop utcnow (h # hosts) nd self = scan_loop utcnow hosts nd self"
      by simp
    with skip Cons.IH [of nd self] show ?thesis by simp
  next
    case (raise k)
    then have "fst (scan_loop utcnow (h # hosts) nd self) = Inl (KeyError k)"
      by simp
    with raise show ?thesis by auto
  next
    case (ok m nm ip st)
    from scan_host_ok [OF ok, of utcnow nd self]
    obtain nd1 self1 where "scan_host utcnow h nd self = Inr (nd1, self1)"
      by blast
    then have "scan_loop utcnow (h # hosts) nd self = scan_loop utcnow hosts nd1 self1"
      by simp
    with ok Cons.IH [of nd1 self1] show ?thesis by simp
  qed
qed

lemma scan_loop_skip:
  "\<not> truthy (get_mac h) \<Longrightarrow>
     scan_loop utcnow (xs @ h # ys) nd self = scan_loop utcnow (xs @ ys) nd self"
proof (induction xs arbitrary: nd self)
  case Nil
  then show ?case by (simp add: scan_host_skip)
next
  case (Cons x xs)
  then show ?case by (simp split: sum.splits)
qed





text \<open>
  C1: on an object whose connection failed (\<^verbatim>\<open>success\<close> false) the claim wants
  \<^verbatim>\<open>scan_devices\<close> to return silently, with no record changed and no signal sent.
  The code changes nothing and sends nothing, but it does not return:
  \<^verbatim>\<open>_update_info\<close> returns \<^verbatim>\<open>None\<close> and the \<^verbatim>\<open>for\<close> loop over it raises
  \<^verbatim>\<open>TypeError\<close>.
\<close>

theorem scan_devices_failed_raises:
  "scan_devices (\<lambda>n. 100 + int n)
     [\<lparr>mac_key = Some (Some ''AA:BB''), name_key = Some (Some ''Phone''),
       ip_key = Some (Some ''192.168.1.5''), status_key = Some True\<rparr>]
     \<lparr>success = False, devices = Map.empty, hass_signals = [], utc_calls = 0\<rparr>
   = (Inl TypeError,
      \<lparr>success = False, devices = Map.empty, hass_signals = [], utc_calls = 0\<rparr>)"
  by (simp add: scan_devices_def update_info_def)

text \<open>
  C2, as the claim states it, fails at the second scan: its entry has no
  \<^verbatim>\<open>"name"\<close> and no \<^verbatim>\<open>"ip"\<close> key, \<^verbatim>\<open>known_host["name"]\<close> raises
  \<^verbatim>\<open>KeyError\<close>, the record keeps its IP address and stays connected, and no signal
  is sent. (The spec's \<open>online\<close> is the key \<^verbatim>\<open>"status"\<close>; the clock shows 100 at the
  first scan.)
\<close>

theorem second_scan_without_fields_raises:
  "scan_devices (\<lambda>n. 100 + int n)
     [\<lparr>mac_key = Some (Some ''AA:BB''), name_key = None, ip_key = None,
       status_key = Some False\<rparr>]
     \<lparr>success = True,
      devices = [''AA:BB'' \<mapsto>
        \<lparr>mac = ''AA:BB'', name = Some ''Phone'', ip_address = Some ''192.168.1.5'',
         last_activity = Some 100, is_connected = True, icon = Some ''mdi:lan-connect''\<rparr>],
      hass_signals = [''fritz-device-update'', ''fritz-device-new''], utc_calls = 1\<rparr>
   = (Inl (KeyError ''name''),
      \<lparr>success = True,
       devices = [''AA:BB'' \<mapsto>
         \<lparr>mac = ''AA:BB'', name = Some ''Phone'', ip_address = Some ''192.168.1.5'',
          last_activity = Some 100, is_connected = True, icon = Some ''mdi:lan-connect''\<rparr>],
       hass_signals = [''fritz-device-update'', ''fritz-device-new''], utc_calls = 1\<rparr>)"
  by (simp add: scan_devices_def update_info_def scan_host_def get_mac_def)

text \<open>
  C2, amended: from an empty registry, a scan of the one entry (mac \<^verbatim>\<open>AA:BB\<close>, ip
  \<^verbatim>\<open>192.168.1.5\<close>, name \<^verbatim>\<open>Phone\<close>, status true) leaves exactly one record, named
  \<^verbatim>\<open>Phone\<close> and connected, and sends the update signal and then the new-device
  signal. A second scan of the one entry (mac \<^verbatim>\<open>AA:BB\<close>, status false) whose
  \<^verbatim>\<open>"ip"\<close> and \<^verbatim>\<open>"name"\<close> keys are present and hold \<^verbatim>\<open>None\<close> leaves the
  same single record with IP address \<^verbatim>\<open>None\<close>, disconnected, still named
  \<^verbatim>\<open>Phone\<close>, and sends the update signal only (the signals of the first scan
  are still in the list).
\<close>

theorem two_scans_example:
  "scan_devices (\<lambda>n. 100 + int n)
     [\<lparr>mac_key = Some (Some ''AA:BB''), name_key = Some (Some ''Phone''),
       ip_key = Some (Some ''192.168.1.5''), status_key = Some True\<rparr>]
     \<lparr>success = True, devices = Map.empty, hass_signals = [], utc_calls = 0\<rparr>
   = (Inr (),
      \<lparr>success = True,
       devices = [''AA:BB'' \<mapsto>
         \<lparr>mac = ''AA:BB'', name = Some ''Phone'', ip_address = Some ''192.168.1.5'',
          last_activity = Some 100, is_connected = True, icon = Some ''mdi:lan-connect''\<rparr>],
       hass_signals = [''fritz-device-update'', ''fritz-device-new''], utc_calls = 1\<rparr>)
   \<and> scan_devices (\<lambda>n. 100 + int n)
     [\<lparr>mac_key = Some (Some ''AA:BB''), name_key = Some None, ip_key = Some None,
       status_key = Some False\<rparr>]
     \<lparr>success = True,
      devices = [''AA:BB'' \<mapsto>
        \<lparr>mac = ''AA:BB'', name = Some ''Phone'', ip_address = Some ''192.168.1.5'',
         last_activity = Some 100, is_connected = True, icon = Some ''mdi:lan-connect''\<rparr>],
      hass_signals = [''fritz-device-update'', ''fritz-device-new''], utc_calls = 1\<rparr>
   = (Inr (),
      \<lparr>success = True,
       devices = [''AA:BB'' \<mapsto>
         \<lparr>mac = ''AA:BB'', name = Some ''Phone'', ip_address = None,
          last_activity = Some 100, is_connected = False,
          icon = Some ''mdi:lan-disconnect''\<rparr>],
       hass_signals = [''fritz-device-update'', ''fritz-device-new'', ''fritz-device-update''],
       utc_calls = 2\<rparr>)"
  by (simp add: scan_devices_def update_info_def scan_host_def get_mac_def update_def
      FritzScannerEntity_init_def signal_device_update_def signal_device_new_def)

text \<open>
  On an object with \<^verbatim>\<open>success\<close> true, \<^verbatim>\<open>scan_devices\<close> gets through all
  entries and returns exactly when every entry with a MAC holds the keys the loop reads
  (\<^verbatim>\<open>"name"\<close>, \<^verbatim>\<open>"ip"\<close> and \<^verbatim>\<open>"status"\<close>); a scan that raises has sent
  nothing.
\<close>

lemma scan_devices_returns_iff:
  assumes "success self"
  shows "(fst (scan_devices utcnow hosts_info self) = Inr ()) =
           (\<forall>h\<in>set hosts_info. truthy (get_mac h) \<longrightarrow>
              name_key h \<noteq> None \<and> ip_key h \<noteq> None \<and> status_key h \<noteq> None)"
proof -
  obtain r self1 where loop: "scan_loop utcnow hosts_info False self = (r, self1)"
    by (cases "scan_loop utcnow hosts_info False self") auto
  have "(fst (scan_devices utcnow hosts_info self) = Inr ()) = (\<exists>nd. r = Inr nd)"
    using assms loop by (cases r) (simp_all add: scan_devices_def update_info_def Let_def)
  then show ?thesis
    using scan_loop_returns_iff [of utcnow hosts_info False self] loop by simp
qed

lemma scan_devices_raises_silent:
  "fst (scan_devices utcnow hosts_info self) \<noteq> Inr () \<Longrightarrow>
     hass_signals (snd (scan_devices utcnow hosts_info self)) = hass_signals self"
proof -
  assume raised: "fst (scan_devices utcnow hosts_info self) \<noteq> Inr ()"
  obtain r self1 where loop: "scan_loop utcnow hosts_info False self = (r, self1)"
    by (cases "scan_loop utcnow hosts_info False self") auto
  have sig: "hass_signals self1 = hass_signals self"
    using scan_loop_frame [of utcnow hosts_info False self] loop by simp
  show ?thesis
  proof (cases "success self")
    case False
    then show ?thesis by (simp add: scan_devices_def update_info_def)
  next
    case True
    with raised loop sig show ?thesis
      by (cases r) (simp_all add: scan_devices_def update_info_def Let_def)
  qed
qed

text \<open>
  C3, as the claim states it, fails: a scan on an object with \<^verbatim>\<open>success\<close> true
  does not always get to the signals. Here the first entry has a MAC that the empty
  registry does not know, and the second entry has a MAC but no \<^verbatim>\<open>"name"\<close> key.
  The loop creates the record of the first entry, \<^verbatim>\<open>known_host["name"]\<close> raises
  \<^verbatim>\<open>KeyError\<close> at the second, and neither the update signal nor the new-device
  signal is sent.
\<close>

theorem scan_raises_before_signals:
  "scan_devices (\<lambda>n. 100 + int n)
     [\<lparr>mac_key = Some (Some ''AA:BB''), name_key = Some (Some ''Phone''),
       ip_key = Some (Some ''192.168.1.5''), status_key = Some True\<rparr>,
      \<lparr>mac_key = Some (Some ''CC:DD''), name_key = None,
       ip_key = Some (Some ''192.168.1.6''), status_key = Some True\<rparr>]
     \<lparr>success = True, devices = Map.empty, hass_signals = [], utc_calls = 0\<rparr>
   = (Inl (KeyError ''name''),
      \<lparr>success = True,
       devices = [''AA:BB'' \<mapsto>
         \<lparr>mac = ''AA:BB'', name = Some ''Phone'', ip_address = Some ''192.168.1.5'',
          last_activity = Some 100, is_connected = True, icon = Some ''mdi:lan-connect''\<rparr>],
       hass_signals = [], utc_calls = 1\<rparr>)"
  by (simp add: scan_devices_def update_info_def scan_host_def get_mac_def update_def
      FritzScannerEntity_init_def)

text \<open>
  C3, amended: a scan on an object with \<^verbatim>\<open>success\<close> true, over a snapshot in
  which every entry with a MAC holds the \<^verbatim>\<open>"name"\<close>, \<^verbatim>\<open>"ip"\<close> and
  \<^verbatim>\<open>"status"\<close> keys, returns, and what it sends is the update signal, whatever the
  snapshot holds (also when it is empty or changes nothing), followed by the new-device
  signal exactly when some entry has a MAC (a non-empty string) that was not a key of
  the registry when the scan began.
\<close>

theorem scan_devices_signals:
  assumes "success self"
    and "\<forall>h\<in>set hosts_info. truthy (get_mac h) \<longrightarrow>
           name_key h \<noteq> None \<and> ip_key h \<noteq> None \<and> status_key h \<noteq> None"
  shows "fst (scan_devices utcnow hosts_info self) = Inr ()
     \<and> hass_signals (snd (scan_devices utcnow hosts_info self)) =
         hass_signals self @ signal_device_update #
           (if \<exists>h\<in>set hosts_info. \<exists>m. get_mac h = Some m \<and> m \<noteq> [] \<and> devices self m = None
            then [signal_device_new] else [])"
proof -
  obtain r self1 where loop: "scan_loop utcnow hosts_info False self = (r, self1)"
    by (cases "scan_loop utcnow hosts_info False self") auto
  have r: "r = Inr (\<exists>h\<in>set hosts_info. \<exists>m. get_mac h = Some m \<and> m \<noteq> [] \<and> devices self m = None)"
    using scan_loop_new_device [OF assms(2), of utcnow False self] loop by simp
  have sig: "hass_signals self1 = hass_signals self"
    using scan_loop_frame [of utcnow hosts_info False self] loop by simp
  show ?thesis
    using assms(1) loop r sig
    by (simp add: scan_devices_def update_info_def Let_def)
qed

theorem scan_devices_signals_witness:
  "fst (scan_devices (\<lambda>n. 100 + int n) []
      \<lparr>success = True, devices = Map.empty, hass_signals = [], utc_calls = 0\<rparr>) = Inr ()
   \<and> hass_signals (snd (scan_devices (\<lambda>n. 100 + int n) []
      \<lparr>success = True, devices = Map.empty, hass_signals = [], utc_calls = 0\<rparr>))
     = [''fritz-device-update'']
   \<and> fst (scan_devices (\<lambda>n. 100 + int n)
      [\<lparr>mac_key = Some (Some ''AA:BB''), name_key = Some None, ip_key = Some None,
        status_key = Some False\<rparr>,
       \<lparr>mac_key = Some (Some ''CC:DD''), name_key = Some (Some ''Tablet''),
        ip_key = Some (Some ''192.168.1.6''), status_key = Some True\<rparr>]
      \<lparr>success = True,
       devices = [''AA:BB'' \<mapsto>
         \<lparr>mac = ''AA:BB'', name = Some ''Phone'', ip_address = Some ''192.168.1.5'',
          last_activity = Some 100, is_connected = True, icon = Some ''mdi:lan-connect''\<rparr>],
       hass_signals = [], utc_calls = 1\<rparr>) = Inr ()
   \<and> hass_signals (snd (scan_devices (\<lambda>n. 100 + int n)
      [\<lparr>mac_key = Some (Some ''AA:BB''), name_key = Some None, ip_key = Some None,
        status_key = Some False\<rparr>,
       \<lparr>mac_key = Some (Some ''CC:DD''), name_key = Some (Some ''Tablet''),
        ip_key = Some (Some ''192.168.1.6''), status_key = Some True\<rparr>]
      \<lparr>success = True,
       devices = [''AA:BB'' \<mapsto>
         \<lparr>mac = ''AA:BB'', name = Some ''Phone'', ip_address = Some ''192.168.1.5'',
          last_activity = Some 100, is_connected = True, icon = Some ''mdi:lan-connect''\<rparr>],
       hass_signals = [], utc_calls = 1\<rparr>))
     = [''fritz-device-update'', ''fritz-device-new'']"
proof -
  let ?empty = "\<lparr>success = True, devices = Map.empty, hass_signals = [], utc_calls = 0\<rparr>"
  let ?known = "\<lparr>success = True,
       devices = [''AA:BB'' \<mapsto>
         \<lparr>mac = ''AA:BB'', name = Some ''Phone'', ip_address = Some ''192.168.1.5'',
          last_activity = Some 100, is_connected = True, icon = Some ''mdi:lan-connect''\<rparr>],
       hass_signals = [], utc_calls = 1\<rparr>"
  let ?hosts = "[\<lparr>mac_key = Some (Some ''AA:BB''), name_key = Some None, ip_key = Some None,
        status_key = Some False\<rparr>,
       \<lparr>mac_key = Some (Some ''CC:DD''), name_key = Some (Some ''Tablet''),
        ip_key = Some (Some ''192.168.1.6''), status_key = Some True\<rparr>]"
  have ok0: "success ?empty" and ok1: "success ?known"
    by simp_all
  have wf0: "\<forall>h\<in>set ([]::known_host list). truthy (get_mac h) \<longrightarrow>
           name_key h \<noteq> None \<and> ip_key h \<noteq> None \<and> status_key h \<noteq> None"
    by simp
  have wf1: "\<forall>h\<in>set ?hosts. truthy (get_mac h) \<longrightarrow>
           name_key h \<noteq> None \<and> ip_key h \<noteq> None \<and> status_key h \<noteq> None"
    by auto
  show ?thesis
    using scan_devices_signals [OF ok0 wf0, of "\<lambda>n. 100 + int n"]
      scan_devices_signals [OF ok1 wf1, of "\<lambda>n. 100 + int n"]
    by (simp add: get_mac_def signal_device_update_def signal_device_new_def)
qed

text \<open>
  C7: an entry whose MAC is missing (no \<^verbatim>\<open>"mac"\<close> key, or \<^verbatim>\<open>None\<close>) or empty is
  skipped: the scan of a snapshot with such an entry anywhere in it does exactly what the
  scan of the snapshot without that entry does, to the registry, to the signals and in
  what it returns or raises. So nothing is created or changed for the entry, and the
  entries around it are processed as they would be without it.
\<close>

theorem scan_devices_skips_missing_mac:
  assumes "mac_key h = None \<or> mac_key h = Some None \<or> mac_key h = Some (Some [])"
  shows "scan_devices utcnow (xs @ h # ys) self = scan_devices utcnow (xs @ ys) self"
proof -
  have "\<not> truthy (get_mac h)" using assms by (auto simp add: get_mac_def)
  then show ?thesis
    by (simp add: scan_devices_def update_info_def scan_loop_skip)
qed

theorem scan_devices_skips_missing_mac_witness:
  "scan_devices (\<lambda>n. 100 + int n)
     ([] @ \<lparr>mac_key = None, name_key = None, ip_key = Some (Some ''1.2.3.4''),
            status_key = Some True\<rparr>
         # [\<lparr>mac_key = Some (Some ''AA:BB''), name_key = Some (Some ''Phone''),
             ip_key = Some (Some ''192.168.1.5''), status_key = Some True\<rparr>])
     \<lparr>success = True, devices = Map.empty, hass_signals = [], utc_calls = 0\<rparr>
   = (Inr (),
      \<lparr>success = True,
       devices = [''AA:BB'' \<mapsto>
         \<lparr>mac = ''AA:BB'', name = Some ''Phone'', ip_address = Some ''192.168.1.5'',
          last_activity = Some 100, is_connected = True, icon = Some ''mdi:lan-connect''\<rparr>],
       hass_signals = [''fritz-device-update'', ''fritz-device-new''], utc_calls = 1\<rparr>)"
proof -
  have no_mac: "mac_key \<lparr>mac_key = None, name_key = None, ip_key = Some (Some ''1.2.3.4''),
            status_key = Some True\<rparr> = None
      \<or> mac_key \<lparr>mac_key = None, name_key = None, ip_key = Some (Some ''1.2.3.4''),
            status_key = Some True\<rparr> = Some None
      \<or> mac_key \<lparr>mac_key = None, name_key = None, ip_key = Some (Some ''1.2.3.4''),
            status_key = Some True\<rparr> = Some (Some [])"
    by simp
  have "scan_devices (\<lambda>n. 100 + int n)
     ([] @ [\<lparr>mac_key = Some (Some ''AA:BB''), name_key = Some (Some ''Phone''),
             ip_key = Some (Some ''192.168.1.5''), status_key = Some True\<rparr>])
     \<lparr>success = True, devices = Map.empty, hass_signals = [], utc_calls = 0\<rparr>
   = (Inr (),
      \<lparr>success = True,
       devices = [''AA:BB'' \<mapsto>
         \<lparr>mac = ''AA:BB'', name = Some ''Phone'', ip_address = Some ''192.168.1.5'',
          last_activity = Some 100, is_connected = True, icon = Some ''mdi:lan-connect''\<rparr>],
       hass_signals = [''fritz-device-update'', ''fritz-device-new''], utc_calls = 1\<rparr>)"
    by (simp add: scan_devices_def update_info_def scan_host_def get_mac_def update_def
        FritzScannerEntity_init_def signal_device_update_def signal_device_new_def)
  then show ?thesis
    by (simp only: scan_devices_skips_missing_mac [OF no_mac])
qed



end
